theory Spec2Isabelle
  imports Main
begin

section \<open>one.h: at most one live object per key\<close>

text \<open>
  The header declares a registry \<open>oneMethod<T, Args...>\<close> (a static vector of key tuples and
  a static \<open>std::timed_mutex\<close>) and two handle templates, \<open>one<T, Args...>\<close> and
  \<open>oneR<T, Args...>\<close>, which claim a key in the registry when they are constructed or
  initialised and erase it when they are destroyed.

  The embedding is for one instantiation of the templates. Every use of
  \<open>std::forward<Argss...>(args...)\<close> in the header is well-formed for a pack of exactly one
  element only, so a key tuple is a single value of type \<open>'k\<close>. Execution is serialised: one
  call runs to its end before the next begins.

  Three members of the header are in no program that compiles and are therefore not
  part of the model. \<open>one(Args... condition, Argss &&...constructArgs)\<close> and
  \<open>init(Args... condition, Argss &&...constructArgs)\<close> pass \<open>5000min\<close>, a
  \<open>std::chrono::minutes\<close>, on: the forwarding pack of the same overload binds it exactly,
  where the \<open>milliseconds\<close> parameter of the intended overload needs a conversion, so each
  selects itself with a longer pack, without end. \<open>~oneR\<close> calls \<open>erase(data)\<close> with an
  lvalue, which only the template \<open>erase\<close> accepts, and that compares a \<open>tuple<K>\<close> with a
  \<open>tuple<tuple<K>>\<close>: a \<open>oneR\<close> handle can be constructed and initialised, but not
  destroyed.
\<close>

subsection \<open>Exceptions and durations\<close>

text \<open>
  The header's exception type is \<open>std::runtime_error\<close>; its two throw sites differ in
  the message only. \<open>other_exception\<close> stands for whatever the constructor of \<open>T\<close> (or the
  allocation in \<open>new\<close>) throws.
\<close>

datatype exc = runtime_error string | other_exception

definition DuplicateKey :: exc where
  "DuplicateKey = runtime_error ''There is the same''"

definition LockTimeout :: exc where
  "LockTimeout = runtime_error ''Get lock the time out''"

text \<open>A \<open>std::chrono::milliseconds\<close> is its tick count; \<open>5000min\<close> converts to it.\<close>

type_synonym milliseconds = int

definition minutes :: "int \<Rightarrow> milliseconds" where
  "minutes n = n * 60000"

subsection \<open>The template arguments\<close>

text \<open>
  What the instantiation supplies: the constructors of \<open>T\<close> (the result \<open>None\<close> is a
  constructor that throws), the value a key object is left with after it has been moved
  from, and the value-initialised key tuple held by a handle whose \<open>data\<close> member was
  never assigned. For \<open>int\<close> and pointer keys \<open>moved\<close> is the identity; a moved-from
  \<open>std::string\<close> is empty in the usual standard libraries.
\<close>

datatype ('k, 'a) ctor_args = no_args | from_condition 'k | from_args 'a

record ('k, 'a, 'v) targs =
  T_new :: "('k, 'a) ctor_args \<Rightarrow> 'v option"
  moved :: "'k \<Rightarrow> 'k"
  dflt :: "'k"

subsection \<open>oneMethod: the list of claimed keys\<close>

text \<open>
  \<open>std::find\<close> returns the offset of the first element equal to the value, or the offset
  of \<open>end()\<close>. \<open>std::remove\<close> keeps the elements that differ from the value, in their
  order, and returns the new end; \<open>list.erase(new_end, list.end())\<close> cuts the rest off.
\<close>

fun std_find :: "'k list \<Rightarrow> 'k \<Rightarrow> nat" where
  "std_find [] v = 0"
| "std_find (x # xs) v = (if x = v then 0 else Suc (std_find xs v))"

fun std_remove :: "'k list \<Rightarrow> 'k \<Rightarrow> 'k list" where
  "std_remove [] v = []"
| "std_remove (x # xs) v = (if x = v then std_remove xs v else x # std_remove xs v)"

definition add :: "'k list \<Rightarrow> 'k \<Rightarrow> 'k list" where
  "add l k = l @ [k]"

definition verified :: "'k list \<Rightarrow> 'k \<Rightarrow> bool" where
  "verified l k = (std_find l k \<noteq> length l)"

definition erase :: "'k list \<Rightarrow> 'k \<Rightarrow> 'k list" where
  "erase l k = std_remove l k"

text \<open>The reading of \<open>remove\<close> in the specification: only the first matching entry goes.\<close>

fun remove_first_spec :: "'k list \<Rightarrow> 'k \<Rightarrow> 'k list" where
  "remove_first_spec [] v = []"
| "remove_first_spec (x # xs) v = (if x = v then xs else x # remove_first_spec xs v)"

subsection \<open>The state shared by all handles\<close>

text \<open>
  \<open>lst\<close> is \<open>oneMethod::list\<close>; \<open>mtx\<close> is true while \<open>oneMethod::mtx\<close> is locked; \<open>heap\<close>
  holds the objects of type \<open>T\<close>, an address being an index and \<open>None\<close> a destroyed
  object; \<open>trace\<close> records the calls on the list, the mutex and the heap in program
  order.
\<close>

type_synonym addr = nat

datatype 'k event =
    ev_verified 'k
  | ev_try_lock_for milliseconds
  | ev_lock
  | ev_unlock
  | ev_add 'k
  | ev_erase 'k
  | ev_new addr
  | ev_delete addr

record ('k, 'v) world =
  lst :: "'k list"
  mtx :: bool
  heap :: "'v option list"
  trace :: "'k event list"

definition log :: "'k event \<Rightarrow> ('k, 'v) world \<Rightarrow> ('k, 'v) world" where
  "log e w = w\<lparr>trace := trace w @ [e]\<rparr>"

definition world0 :: "('k, 'v) world" where
  "world0 = \<lparr>lst = [], mtx = False, heap = [], trace = []\<rparr>"

subsection \<open>entrust\<close>

text \<open>
  \<open>one::entrust\<close> and \<open>oneR::entrust\<close> have the same body. In a serialised execution a
  mutex that is locked when \<open>try_lock_for\<close> is called stays locked until the timeout, so
  the call fails exactly when \<open>mtx\<close> is set.

  The key reaches \<open>entrust\<close> as \<open>std::move(condition...)\<close>, and each of \<open>verified\<close>,
  \<open>add\<close> and the assignment to \<open>data\<close> receives \<open>std::forward<Argss...>(condition...)\<close>, an
  rvalue, from which \<open>std::make_tuple\<close> move-constructs its element. So \<open>verified\<close> compares
  the key itself, \<open>add\<close> stores what the first move left behind, and \<open>data\<close> gets what
  the second move left behind. The result is the new value of \<open>data\<close>.
\<close>

definition entrust ::
  "('k, 'a, 'v) targs \<Rightarrow> milliseconds \<Rightarrow> 'k \<Rightarrow> ('k, 'v) world \<Rightarrow> (exc + 'k) \<times> ('k, 'v) world" where
  "entrust P t condition w =
     (let w1 = log (ev_verified condition) w in
      if verified (lst w1) condition then (Inl DuplicateKey, w1)
      else
        let w2 = log (ev_try_lock_for t) w1 in
        if mtx w2 then (Inl LockTimeout, w2)
        else
          let w3 = w2\<lparr>mtx := True\<rparr>;
              c1 = moved P condition;
              w4 = log (ev_add c1) (w3\<lparr>lst := add (lst w3) c1\<rparr>);
              c2 = moved P c1;
              w5 = log ev_unlock (w4\<lparr>mtx := False\<rparr>)
          in (Inr c2, w5))"

subsection \<open>The indirect handle \<open>one\<close>\<close>

text \<open>
  \<open>Base\<close> has the two implementations \<open>retain\<close> (owns a \<open>T\<close> made with \<open>new\<close>, and
  deletes it in its destructor) and \<open>package\<close> (refers to a \<open>T\<close> of the caller). The
  member \<open>base\<close> is a raw pointer which the default constructor leaves unassigned:
  \<open>None\<close>.
\<close>

datatype Base = retain addr | package addr

record 'k one_h =
  data :: 'k
  base :: "Base option"

definition one_default :: "('k, 'a, 'v) targs \<Rightarrow> 'k one_h" where
  "one_default P = \<lparr>data = dflt P, base = None\<rparr>"

definition new_retain ::
  "('k, 'a, 'v) targs \<Rightarrow> ('k, 'a) ctor_args \<Rightarrow> ('k, 'v) world \<Rightarrow> (exc + Base) \<times> ('k, 'v) world" where
  "new_retain P c w =
     (case T_new P c of
        None \<Rightarrow> (Inl other_exception, w)
      | Some v \<Rightarrow>
          (Inr (retain (length (heap w))),
           log (ev_new (length (heap w))) (w\<lparr>heap := heap w @ [Some v]\<rparr>)))"

definition new_package :: "addr \<Rightarrow> ('k, 'v) world \<Rightarrow> (exc + Base) \<times> ('k, 'v) world" where
  "new_package d w = (Inr (package d), w)"

definition timeout_or :: "milliseconds \<Rightarrow> milliseconds option \<Rightarrow> milliseconds" where
  "timeout_or d t = (case t of None \<Rightarrow> d | Some t' \<Rightarrow> t')"

text \<open>
  Every constructor body is \<open>entrust(t, std::move(condition...)); base = new ...;\<close>. An
  exception leaves the constructor, and no object (so no later destructor call) exists.
  The allocation is given the new \<open>data\<close>, from which the state of the parameter
  \<open>condition\<close> after \<open>entrust\<close> follows (one more move).
\<close>

definition construct ::
  "('k, 'a, 'v) targs \<Rightarrow> milliseconds \<Rightarrow> 'k \<Rightarrow>
   ('k \<Rightarrow> ('k, 'v) world \<Rightarrow> (exc + Base) \<times> ('k, 'v) world) \<Rightarrow>
   ('k, 'v) world \<Rightarrow> (exc + 'k one_h) \<times> ('k, 'v) world" where
  "construct P t condition alloc w =
     (case entrust P t condition w of
        (Inl e, w1) \<Rightarrow> (Inl e, w1)
      | (Inr d, w1) \<Rightarrow>
          (case alloc d w1 of
             (Inl e, w2) \<Rightarrow> (Inl e, w2)
           | (Inr b, w2) \<Rightarrow> (Inr \<lparr>data = d, base = Some b\<rparr>, w2)))"

text \<open>\<open>one(Args... condition, milliseconds t, Argss &&...constructArgs)\<close>\<close>

definition one_args ::
  "('k, 'a, 'v) targs \<Rightarrow> 'k \<Rightarrow> milliseconds \<Rightarrow> 'a \<Rightarrow> ('k, 'v) world \<Rightarrow>
   (exc + 'k one_h) \<times> ('k, 'v) world" where
  "one_args P condition t constructArgs w =
     construct P t condition (\<lambda>d. new_retain P (from_args constructArgs)) w"

text \<open>\<open>one(Args... condition, milliseconds t = 5000min)\<close>, with \<open>new retain(condition...)\<close>\<close>

definition one_condition ::
  "('k, 'a, 'v) targs \<Rightarrow> 'k \<Rightarrow> milliseconds option \<Rightarrow> ('k, 'v) world \<Rightarrow>
   (exc + 'k one_h) \<times> ('k, 'v) world" where
  "one_condition P condition t w =
     construct P (timeout_or (minutes 5000) t) condition
       (\<lambda>d. new_retain P (from_condition (moved P d))) w"

text \<open>\<open>one(const notUseConditionConstructor &, Args... condition, milliseconds t = 5000min)\<close>\<close>

definition one_marker ::
  "('k, 'a, 'v) targs \<Rightarrow> 'k \<Rightarrow> milliseconds option \<Rightarrow> ('k, 'v) world \<Rightarrow>
   (exc + 'k one_h) \<times> ('k, 'v) world" where
  "one_marker P condition t w =
     construct P (timeout_or (minutes 5000) t) condition (\<lambda>d. new_retain P no_args) w"

text \<open>\<open>one(T &d, Args... condition, milliseconds t = 5000min)\<close>\<close>

definition one_ref ::
  "('k, 'a, 'v) targs \<Rightarrow> addr \<Rightarrow> 'k \<Rightarrow> milliseconds option \<Rightarrow> ('k, 'v) world \<Rightarrow>
   (exc + 'k one_h) \<times> ('k, 'v) world" where
  "one_ref P d condition t w =
     construct P (timeout_or (minutes 5000) t) condition (\<lambda>c. new_package d) w"

text \<open>
  Every \<open>init\<close> body is \<open>try { entrust(...); base = new ...; return true; }
  catch (...) { return false; }\<close> on an existing handle. \<open>entrust\<close> assigns \<open>data\<close> only
  after the key is added, and \<open>base\<close> is assigned only if the allocation returns.
\<close>

definition init_body ::
  "('k, 'a, 'v) targs \<Rightarrow> 'k one_h \<Rightarrow> milliseconds \<Rightarrow> 'k \<Rightarrow>
   ('k \<Rightarrow> ('k, 'v) world \<Rightarrow> (exc + Base) \<times> ('k, 'v) world) \<Rightarrow>
   ('k, 'v) world \<Rightarrow> bool \<times> 'k one_h \<times> ('k, 'v) world" where
  "init_body P h t condition alloc w =
     (case entrust P t condition w of
        (Inl e, w1) \<Rightarrow> (False, h, w1)
      | (Inr d, w1) \<Rightarrow>
          (case alloc d w1 of
             (Inl e, w2) \<Rightarrow> (False, h\<lparr>data := d\<rparr>, w2)
           | (Inr b, w2) \<Rightarrow> (True, h\<lparr>data := d, base := Some b\<rparr>, w2)))"

text \<open>\<open>init(Args... condition, milliseconds t, Argss &&...constructArgs)\<close>\<close>

definition init_args ::
  "('k, 'a, 'v) targs \<Rightarrow> 'k one_h \<Rightarrow> 'k \<Rightarrow> milliseconds \<Rightarrow> 'a \<Rightarrow> ('k, 'v) world \<Rightarrow>
   bool \<times> 'k one_h \<times> ('k, 'v) world" where
  "init_args P h condition t constructArgs w =
     init_body P h t condition (\<lambda>d. new_retain P (from_args constructArgs)) w"

text \<open>\<open>init(T &d, Args... condition, milliseconds t = 5000min)\<close>\<close>

definition init_ref ::
  "('k, 'a, 'v) targs \<Rightarrow> 'k one_h \<Rightarrow> addr \<Rightarrow> 'k \<Rightarrow> milliseconds option \<Rightarrow> ('k, 'v) world \<Rightarrow>
   bool \<times> 'k one_h \<times> ('k, 'v) world" where
  "init_ref P h d condition t w =
     init_body P h (timeout_or (minutes 5000) t) condition (\<lambda>c. new_package d) w"

text \<open>\<open>init(const notUseConditionConstructor &, Args... condition, milliseconds t = 5000min)\<close>\<close>

definition init_marker ::
  "('k, 'a, 'v) targs \<Rightarrow> 'k one_h \<Rightarrow> 'k \<Rightarrow> milliseconds option \<Rightarrow> ('k, 'v) world \<Rightarrow>
   bool \<times> 'k one_h \<times> ('k, 'v) world" where
  "init_marker P h condition t w =
     init_body P h (timeout_or (minutes 5000) t) condition (\<lambda>d. new_retain P no_args) w"

text \<open>
  \<open>delete base\<close> runs \<open>~retain\<close>, which deletes the owned \<open>T\<close>, or \<open>~package\<close>, which does
  nothing to the \<open>T\<close> it refers to. When \<open>base\<close> was never assigned, what the pointer
  holds is what the storage of the handle held before the constructor ran: in
  zero-initialised storage (a handle of static storage duration, or a member of a
  value-initialised aggregate) it is the null pointer, and deleting it does nothing; in
  any other storage it is indeterminate, and deleting it is undefined behaviour. The
  result \<open>None\<close> is a call with no defined final state.
\<close>

datatype storage = zero_initialised | not_initialised

definition delete_base ::
  "storage \<Rightarrow> Base option \<Rightarrow> ('k, 'v) world \<Rightarrow> ('k, 'v) world option" where
  "delete_base st b w =
     (case b of
        Some (retain a) \<Rightarrow> Some (log (ev_delete a) (w\<lparr>heap := (heap w)[a := None]\<rparr>))
      | Some (package a) \<Rightarrow> Some w
      | None \<Rightarrow> (case st of zero_initialised \<Rightarrow> Some w | not_initialised \<Rightarrow> None))"

text \<open>
  The first two statements of \<open>~one\<close>: \<open>mtx.lock(); erase(std::move(data));\<close>. In a
  serialised execution \<open>lock()\<close> on a locked mutex never returns: the result \<open>None\<close>.
\<close>

definition lock_and_erase :: "'k one_h \<Rightarrow> ('k, 'v) world \<Rightarrow> ('k, 'v) world option" where
  "lock_and_erase h w =
     (if mtx w then None
      else
        let w1 = log ev_lock (w\<lparr>mtx := True\<rparr>);
            w2 = log (ev_erase (data h)) (w1\<lparr>lst := erase (lst w1) (data h)\<rparr>)
        in Some w2)"

text \<open>
  \<open>~one\<close>: \<open>mtx.lock(); erase(std::move(data)); delete base; mtx.unlock();\<close>, for a
  handle in the given kind of storage.
\<close>

definition destroy_one_at ::
  "storage \<Rightarrow> 'k one_h \<Rightarrow> ('k, 'v) world \<Rightarrow> ('k, 'v) world option" where
  "destroy_one_at st h w =
     (case lock_and_erase h w of
        None \<Rightarrow> None
      | Some w2 \<Rightarrow>
          (case delete_base st (base h) w2 of
             None \<Rightarrow> None
           | Some w3 \<Rightarrow> Some (log ev_unlock (w3\<lparr>mtx := False\<rparr>))))"

text \<open>\<open>~one\<close> for a handle whose storage was not zero-initialised (a local or a \<open>new\<close> object).\<close>

definition destroy_one :: "'k one_h \<Rightarrow> ('k, 'v) world \<Rightarrow> ('k, 'v) world option" where
  "destroy_one h w = destroy_one_at not_initialised h w"

subsection \<open>The inline handle \<open>oneR\<close>\<close>

text \<open>
  \<open>oneR\<close> holds the \<open>T\<close> as the member \<open>obj\<close>, which every constructor first
  default-constructs, together with the value-initialised \<open>data\<close>.
\<close>

record ('k, 'v) oneR_h =
  obj :: 'v
  dataR :: 'k

definition oneR_default :: "('k, 'a, 'v) targs \<Rightarrow> exc + ('k, 'v) oneR_h" where
  "oneR_default P =
     (case T_new P no_args of
        None \<Rightarrow> Inl other_exception
      | Some v \<Rightarrow> Inr \<lparr>obj = v, dataR = dflt P\<rparr>)"

text \<open>\<open>oneR(milliseconds t, Args... condition, Argss &&...args)\<close>\<close>

definition oneR_args ::
  "('k, 'a, 'v) targs \<Rightarrow> milliseconds \<Rightarrow> 'k \<Rightarrow> 'a \<Rightarrow> ('k, 'v) world \<Rightarrow>
   (exc + ('k, 'v) oneR_h) \<times> ('k, 'v) world" where
  "oneR_args P t condition args w =
     (case oneR_default P of
        Inl e \<Rightarrow> (Inl e, w)
      | Inr h \<Rightarrow>
          (case entrust P t condition w of
             (Inl e, w1) \<Rightarrow> (Inl e, w1)
           | (Inr d, w1) \<Rightarrow>
               (case T_new P (from_args args) of
                  None \<Rightarrow> (Inl other_exception, w1)
                | Some v \<Rightarrow> (Inr (h\<lparr>dataR := d, obj := v\<rparr>), w1))))"

text \<open>
  \<open>oneR(const notUseConditionConstructor &, Args... condition,
  milliseconds t = std::chrono::milliseconds(5000U))\<close>
\<close>

definition oneR_marker ::
  "('k, 'a, 'v) targs \<Rightarrow> 'k \<Rightarrow> milliseconds option \<Rightarrow> ('k, 'v) world \<Rightarrow>
   (exc + ('k, 'v) oneR_h) \<times> ('k, 'v) world" where
  "oneR_marker P condition t w =
     (case oneR_default P of
        Inl e \<Rightarrow> (Inl e, w)
      | Inr h \<Rightarrow>
          (case entrust P (timeout_or 5000 t) condition w of
             (Inl e, w1) \<Rightarrow> (Inl e, w1)
           | (Inr d, w1) \<Rightarrow> (Inr (h\<lparr>dataR := d\<rparr>), w1)))"

text \<open>
  \<open>init(const notUseConditionConstructor &, Args... condition,
  milliseconds t = std::chrono::milliseconds(5000U))\<close>
\<close>

definition oneR_init_marker ::
  "('k, 'a, 'v) targs \<Rightarrow> ('k, 'v) oneR_h \<Rightarrow> 'k \<Rightarrow> milliseconds option \<Rightarrow> ('k, 'v) world \<Rightarrow>
   bool \<times> ('k, 'v) oneR_h \<times> ('k, 'v) world" where
  "oneR_init_marker P h condition t w =
     (case entrust P (timeout_or 5000 t) condition w of
        (Inl e, w1) \<Rightarrow> (False, h, w1)
      | (Inr d, w1) \<Rightarrow> (True, h\<lparr>dataR := d\<rparr>, w1))"

text \<open>\<open>init(milliseconds t, Args... condition, Argss &&...args)\<close>\<close>

definition oneR_init_args ::
  "('k, 'a, 'v) targs \<Rightarrow> ('k, 'v) oneR_h \<Rightarrow> milliseconds \<Rightarrow> 'k \<Rightarrow> 'a \<Rightarrow> ('k, 'v) world \<Rightarrow>
   bool \<times> ('k, 'v) oneR_h \<times> ('k, 'v) world" where
  "oneR_init_args P h t condition args w =
     (case entrust P t condition w of
        (Inl e, w1) \<Rightarrow> (False, h, w1)
      | (Inr d, w1) \<Rightarrow>
          (case T_new P (from_args args) of
             None \<Rightarrow> (False, h\<lparr>dataR := d\<rparr>, w1)
           | Some v \<Rightarrow> (True, h\<lparr>dataR := d, obj := v\<rparr>, w1)))"

subsection \<open>The overload sets\<close>

text \<open>
  A call of a constructor or of \<open>init\<close> is one of the overloads that can be called, with
  its arguments; an omitted timeout is \<open>None\<close>.
\<close>

datatype ('k, 'a) one_call =
    call_args 'k milliseconds 'a
  | call_condition 'k "milliseconds option"
  | call_marker 'k "milliseconds option"
  | call_ref addr 'k "milliseconds option"

datatype ('k, 'a) init_call =
    init_call_args 'k milliseconds 'a
  | init_call_ref addr 'k "milliseconds option"
  | init_call_marker 'k "milliseconds option"

datatype ('k, 'a) oneR_call =
    callR_args milliseconds 'k 'a
  | callR_marker 'k "milliseconds option"

fun one_ctor ::
  "('k, 'a, 'v) targs \<Rightarrow> ('k, 'a) one_call \<Rightarrow> ('k, 'v) world \<Rightarrow>
   (exc + 'k one_h) \<times> ('k, 'v) world" where
  "one_ctor P (call_args k t a) w = one_args P k t a w"
| "one_ctor P (call_condition k t) w = one_condition P k t w"
| "one_ctor P (call_marker k t) w = one_marker P k t w"
| "one_ctor P (call_ref d k t) w = one_ref P d k t w"

fun one_init ::
  "('k, 'a, 'v) targs \<Rightarrow> 'k one_h \<Rightarrow> ('k, 'a) init_call \<Rightarrow> ('k, 'v) world \<Rightarrow>
   bool \<times> 'k one_h \<times> ('k, 'v) world" where
  "one_init P h (init_call_args k t a) w = init_args P h k t a w"
| "one_init P h (init_call_ref d k t) w = init_ref P h d k t w"
| "one_init P h (init_call_marker k t) w = init_marker P h k t w"

fun oneR_ctor ::
  "('k, 'a, 'v) targs \<Rightarrow> ('k, 'a) oneR_call \<Rightarrow> ('k, 'v) world \<Rightarrow>
   (exc + ('k, 'v) oneR_h) \<times> ('k, 'v) world" where
  "oneR_ctor P (callR_args t k a) w = oneR_args P t k a w"
| "oneR_ctor P (callR_marker k t) w = oneR_marker P k t w"

fun oneR_init ::
  "('k, 'a, 'v) targs \<Rightarrow> ('k, 'v) oneR_h \<Rightarrow> ('k, 'a) oneR_call \<Rightarrow> ('k, 'v) world \<Rightarrow>
   bool \<times> ('k, 'v) oneR_h \<times> ('k, 'v) world" where
  "oneR_init P h (callR_args t k a) w = oneR_init_args P h t k a w"
| "oneR_init P h (callR_marker k t) w = oneR_init_marker P h k t w"

text \<open>The key and the timeout with which a call reaches \<open>entrust\<close>.\<close>

fun one_key :: "('k, 'a) one_call \<Rightarrow> 'k" where
  "one_key (call_args k t a) = k"
| "one_key (call_condition k t) = k"
| "one_key (call_marker k t) = k"
| "one_key (call_ref d k t) = k"

fun init_key :: "('k, 'a) init_call \<Rightarrow> 'k" where
  "init_key (init_call_args k t a) = k"
| "init_key (init_call_ref d k t) = k"
| "init_key (init_call_marker k t) = k"

fun oneR_key :: "('k, 'a) oneR_call \<Rightarrow> 'k" where
  "oneR_key (callR_args t k a) = k"
| "oneR_key (callR_marker k t) = k"

fun one_timeout :: "('k, 'a) one_call \<Rightarrow> milliseconds" where
  "one_timeout (call_args k t a) = t"
| "one_timeout (call_condition k t) = timeout_or (minutes 5000) t"
| "one_timeout (call_marker k t) = timeout_or (minutes 5000) t"
| "one_timeout (call_ref d k t) = timeout_or (minutes 5000) t"

fun init_timeout :: "('k, 'a) init_call \<Rightarrow> milliseconds" where
  "init_timeout (init_call_args k t a) = t"
| "init_timeout (init_call_ref d k t) = timeout_or (minutes 5000) t"
| "init_timeout (init_call_marker k t) = timeout_or (minutes 5000) t"

fun oneR_timeout :: "('k, 'a) oneR_call \<Rightarrow> milliseconds" where
  "oneR_timeout (callR_args t k a) = t"
| "oneR_timeout (callR_marker k t) = timeout_or 5000 t"

text \<open>The allocation that follows \<open>entrust\<close> in each overload.\<close>

fun one_alloc ::
  "('k, 'a, 'v) targs \<Rightarrow> ('k, 'a) one_call \<Rightarrow> 'k \<Rightarrow> ('k, 'v) world \<Rightarrow>
   (exc + Base) \<times> ('k, 'v) world" where
  "one_alloc P (call_args k t a) d = new_retain P (from_args a)"
| "one_alloc P (call_condition k t) d = new_retain P (from_condition (moved P d))"
| "one_alloc P (call_marker k t) d = new_retain P no_args"
| "one_alloc P (call_ref r k t) d = new_package r"

fun init_alloc ::
  "('k, 'a, 'v) targs \<Rightarrow> ('k, 'a) init_call \<Rightarrow> 'k \<Rightarrow> ('k, 'v) world \<Rightarrow>
   (exc + Base) \<times> ('k, 'v) world" where
  "init_alloc P (init_call_args k t a) d = new_retain P (from_args a)"
| "init_alloc P (init_call_ref r k t) d = new_package r"
| "init_alloc P (init_call_marker k t) d = new_retain P no_args"

subsection \<open>The destruction order of the specification\<close>

text \<open>
  The specification's reading of \<open>~one\<close>: lock, remove the key, release the lock, and
  only then destroy the instance of an owning handle.
\<close>

definition destroy_one_spec :: "'k one_h \<Rightarrow> ('k, 'v) world \<Rightarrow> ('k, 'v) world option" where
  "destroy_one_spec h w =
     (if mtx w then None
      else
        let w1 = log ev_lock (w\<lparr>mtx := True\<rparr>);
            w2 = log (ev_erase (data h)) (w1\<lparr>lst := erase (lst w1) (data h)\<rparr>);
            w3 = log ev_unlock (w2\<lparr>mtx := False\<rparr>)
        in delete_base not_initialised (base h) w3)"

subsection \<open>Three instantiations\<close>

text \<open>
  \<open>one<T, int>\<close> with a \<open>T\<close> that holds a number and whose constructors do not throw;
  the same with a \<open>T\<close> whose constructor throws on a negative argument; and
  \<open>one<T, std::string>\<close>, where a moved-from string is empty.
\<close>

definition T_int :: "(int, int) ctor_args \<Rightarrow> int option" where
  "T_int c = (case c of no_args \<Rightarrow> Some 0 | from_condition k \<Rightarrow> Some k | from_args a \<Rightarrow> Some a)"

definition T_throwing :: "(int, int) ctor_args \<Rightarrow> int option" where
  "T_throwing c =
     (case c of no_args \<Rightarrow> Some 0 | from_condition k \<Rightarrow> Some k
      | from_args a \<Rightarrow> (if a < 0 then None else Some a))"

definition T_string :: "(string, int) ctor_args \<Rightarrow> int option" where
  "T_string c = (case c of no_args \<Rightarrow> Some 0 | from_condition k \<Rightarrow> Some 0 | from_args a \<Rightarrow> Some a)"

definition P_int :: "(int, int, int) targs" where
  "P_int = \<lparr>T_new = T_int, moved = (\<lambda>k. k), dflt = 0\<rparr>"

definition P_throwing :: "(int, int, int) targs" where
  "P_throwing = \<lparr>T_new = T_throwing, moved = (\<lambda>k. k), dflt = 0\<rparr>"

definition P_string :: "(string, int, int) targs" where
  "P_string = \<lparr>T_new = T_string, moved = (\<lambda>k. []), dflt = []\<rparr>"

definition int_world0 :: "(int, int) world" where
  "int_world0 = world0"

definition string_world0 :: "(string, int) world" where
  "string_world0 = world0"

text \<open>The timeouts passed to \<open>try_lock_for\<close>, read off a trace.\<close>

fun tried :: "'k event list \<Rightarrow> milliseconds list" where
  "tried [] = []"
| "tried (ev_try_lock_for t # es) = t # tried es"
| "tried (e # es) = tried es"

text \<open>
  Some states of the \<open>int\<close> instantiation: key 7 held by an owning handle whose \<open>T\<close> is
  at address 0; the same with the mutex locked by another thread; and key 0, the
  value-initialised \<open>int\<close>, held by an owning handle.
\<close>

definition world_7 :: "(int, int) world" where
  "world_7 = \<lparr>lst = [7], mtx = False, heap = [Some 0], trace = []\<rparr>"

definition world_7_locked :: "(int, int) world" where
  "world_7_locked = \<lparr>lst = [7], mtx = True, heap = [Some 0], trace = []\<rparr>"


text \<open>
  States of the \<open>std::string\<close> instantiation: after a first handle is constructed with
  the key \<open>"db"\<close>, and after a second one is constructed with the same key.
\<close>

definition world_S :: "(string, int) world" where
  "world_S = snd (one_ctor P_string (call_marker ''db'' None) string_world0)"

definition world_SS :: "(string, int) world" where
  "world_SS = snd (one_ctor P_string (call_marker ''db'' None) world_S)"

text \<open>
  The state after \<open>init\<close> is called with the key 7 on a default-constructed handle and
  the constructor of \<open>T\<close> throws.
\<close>

definition world_F :: "(int, int) world" where
  "world_F =
     snd (snd (one_init P_throwing (one_default P_throwing) (init_call_args 7 100 (- 1))
       int_world0))"

section \<open>Properties of the list operations\<close>

lemma verified_iff: "verified l k \<longleftrightarrow> k \<in> set l"
  unfolding verified_def
proof (induction l)
  case Nil
  show ?case by simp
next
  case (Cons x xs)
  then show ?case by auto
qed

lemma std_remove_filter: "std_remove l k = filter (\<lambda>e. e \<noteq> k) l"
  by (induction l) auto

lemma erase_filter: "erase l k = filter (\<lambda>e. e \<noteq> k) l"
  by (simp add: erase_def std_remove_filter)

lemma tried_append: "tried (xs @ ys) = tried xs @ tried ys"
  by (induction xs rule: tried.induct) auto

text \<open>
  C3 (as amended). \<open>erase\<close> removes every entry of the claimed-key collection that equals
  the key, not only the first; the entries that differ from the key all stay, in their
  original order.
\<close>

theorem erase_removes_all: "erase l k = filter (\<lambda>e. e \<noteq> k) l"
  by (simp add: erase_def std_remove_filter)

text \<open>
  C3 (as stated) fails: with the key 1 claimed twice, \<open>erase\<close> leaves neither entry, where
  removing the first match only would leave the second.
\<close>

theorem erase_first_only_counterexample:
  "erase [1 :: int, 2, 1] 1 = [2] \<and> remove_first_spec [1 :: int, 2, 1] 1 = [2, 1]
   \<and> erase [1 :: int, 2, 1] 1 \<noteq> remove_first_spec [1 :: int, 2, 1] 1"
  by (simp add: erase_def)

section \<open>Facts about \<open>entrust\<close>, the constructors and \<open>init\<close>\<close>

lemmas int_defs = P_int_def T_int_def int_world0_def world0_def world_7_def world_7_locked_def

lemmas throwing_defs = P_throwing_def T_throwing_def int_world0_def world0_def

lemmas string_defs = P_string_def T_string_def string_world0_def world0_def

lemmas op_defs = one_args_def one_condition_def one_marker_def one_ref_def
  init_args_def init_ref_def init_marker_def construct_def init_body_def
  oneR_args_def oneR_marker_def oneR_init_args_def oneR_init_marker_def oneR_default_def
  one_default_def new_retain_def new_package_def timeout_or_def minutes_def
  entrust_def verified_def add_def erase_def log_def Let_def
  destroy_one_def destroy_one_at_def lock_and_erase_def delete_base_def

lemma exc_distinct [simp]:
  "DuplicateKey \<noteq> LockTimeout" "DuplicateKey \<noteq> other_exception" "LockTimeout \<noteq> other_exception"
  "LockTimeout \<noteq> DuplicateKey" "other_exception \<noteq> DuplicateKey" "other_exception \<noteq> LockTimeout"
  by (simp_all add: DuplicateKey_def LockTimeout_def)

text \<open>
  The three outcomes of \<open>entrust\<close>, with the calls each one makes: the membership check
  alone when the key is found; the check and the timed lock when the mutex is held; the
  check, the timed lock, the insertion and the unlock otherwise. What is inserted is the
  key argument after one move, and the new \<open>data\<close> is the key argument after two.
\<close>

lemma entrust_steps:
  "entrust P t k w =
     (if k \<in> set (lst w) then (Inl DuplicateKey, w\<lparr>trace := trace w @ [ev_verified k]\<rparr>)
      else if mtx w then (Inl LockTimeout, w\<lparr>trace := trace w @ [ev_verified k, ev_try_lock_for t]\<rparr>)
      else (Inr (moved P (moved P k)),
            w\<lparr>lst := lst w @ [moved P k],
              trace := trace w @ [ev_verified k, ev_try_lock_for t, ev_add (moved P k), ev_unlock]\<rparr>))"
  by (simp add: entrust_def log_def verified_iff add_def Let_def)

lemma entrust_Inl:
  "entrust P t k w = (Inl e, w') \<Longrightarrow>
     (e = DuplicateKey \<or> e = LockTimeout) \<and> lst w' = lst w \<and> mtx w' = mtx w \<and> heap w' = heap w
     \<and> (k \<in> set (lst w) \<or> mtx w)"
  by (auto simp: entrust_steps split: if_splits)

lemma entrust_Inr:
  "entrust P t k w = (Inr d, w') \<Longrightarrow>
     k \<notin> set (lst w) \<and> \<not> mtx w \<and> d = moved P (moved P k) \<and> lst w' = lst w @ [moved P k]
     \<and> \<not> mtx w' \<and> heap w' = heap w"
  by (auto simp: entrust_steps split: if_splits)

lemma new_retain_cases:
  "new_retain P c w =
     (case T_new P c of None \<Rightarrow> (Inl other_exception, w)
      | Some v \<Rightarrow> (Inr (retain (length (heap w))),
          w\<lparr>heap := heap w @ [Some v], trace := trace w @ [ev_new (length (heap w))]\<rparr>))"
  by (simp add: new_retain_def log_def split: option.splits)

lemma one_ctor_construct:
  "one_ctor P c w = construct P (one_timeout c) (one_key c) (one_alloc P c) w"
  by (cases c)
     (simp_all add: one_args_def one_condition_def one_marker_def
        one_ref_def construct_def split: prod.splits sum.splits)

lemma one_init_body:
  "one_init P h c w = init_body P h (init_timeout c) (init_key c) (init_alloc P c) w"
  by (cases c)
     (simp_all add: init_args_def init_ref_def init_marker_def
        init_body_def split: prod.splits sum.splits)

lemma one_alloc_frame:
  "one_alloc P c d w = (r, w') \<Longrightarrow> lst w' = lst w \<and> mtx w' = mtx w"
  by (cases c) (auto simp: new_retain_cases new_package_def split: option.splits)

lemma one_alloc_error:
  "one_alloc P c d w = (Inl e, w') \<Longrightarrow> e = other_exception \<and> w' = w"
  by (cases c) (auto simp: new_retain_cases new_package_def split: option.splits)

lemma one_alloc_success_any_world:
  "one_alloc P c d w = (Inr b, w') \<Longrightarrow> \<exists>b' w''. one_alloc P c d v = (Inr b', w'')"
  by (cases c) (auto simp: new_retain_cases new_package_def split: option.splits)

lemma one_ctor_claim_error:
  assumes "one_ctor P c w = (Inl e, w')" and "e = DuplicateKey \<or> e = LockTimeout"
  shows "lst w' = lst w"
proof (cases "entrust P (one_timeout c) (one_key c) w")
  case (Pair r w1)
  show ?thesis
  proof (cases r)
    case (Inl e1)
    with Pair assms show ?thesis
      by (auto simp: one_ctor_construct construct_def dest: entrust_Inl)
  next
    case (Inr d)
    with Pair assms show ?thesis
      by (auto simp: one_ctor_construct construct_def split: prod.splits sum.splits
          dest!: one_alloc_error)
  qed
qed

lemma oneR_default_error: "oneR_default P = Inl e \<Longrightarrow> e = other_exception"
  by (auto simp: oneR_default_def split: option.splits)

lemma oneR_ctor_claim_error:
  assumes "oneR_ctor P c w = (Inl e, w')" and "e = DuplicateKey \<or> e = LockTimeout"
  shows "lst w' = lst w"
  using assms
  by (cases c)
     (auto simp: oneR_args_def oneR_marker_def
        split: sum.splits prod.splits option.splits dest: entrust_Inl dest!: oneR_default_error)

lemma one_init_claim_fails:
  "entrust P (init_timeout c) (init_key c) w = (Inl e, w') \<Longrightarrow>
     one_init P h c w = (False, h, w')"
  by (simp add: one_init_body init_body_def)

lemma oneR_init_claim_fails:
  "entrust P (oneR_timeout c) (oneR_key c) w = (Inl e, w') \<Longrightarrow>
     oneR_init P h c w = (False, h, w')"
  by (cases c) (simp_all add: oneR_init_args_def oneR_init_marker_def)

lemma lock_and_erase_cases:
  "lock_and_erase h w =
     (if mtx w then None
      else Some (w\<lparr>mtx := True, lst := filter (\<lambda>e. e \<noteq> data h) (lst w),
                   trace := trace w @ [ev_lock, ev_erase (data h)]\<rparr>))"
  by (simp add: lock_and_erase_def log_def erase_filter Let_def)

lemma destroy_one_at_cases:
  "destroy_one_at st h w =
     (if mtx w then None
      else case base h of
        Some (retain a) \<Rightarrow>
          Some (w\<lparr>lst := filter (\<lambda>e. e \<noteq> data h) (lst w), heap := (heap w)[a := None],
                 trace := trace w @ [ev_lock, ev_erase (data h), ev_delete a, ev_unlock]\<rparr>)
      | Some (package a) \<Rightarrow>
          Some (w\<lparr>lst := filter (\<lambda>e. e \<noteq> data h) (lst w),
                 trace := trace w @ [ev_lock, ev_erase (data h), ev_unlock]\<rparr>)
      | None \<Rightarrow>
          (case st of
             zero_initialised \<Rightarrow>
               Some (w\<lparr>lst := filter (\<lambda>e. e \<noteq> data h) (lst w),
                      trace := trace w @ [ev_lock, ev_erase (data h), ev_unlock]\<rparr>)
           | not_initialised \<Rightarrow> None))"
  by (simp add: destroy_one_at_def lock_and_erase_cases delete_base_def log_def
      split: option.splits Base.splits storage.splits)

lemma destroy_one_at_Some:
  "\<not> mtx w \<Longrightarrow> base h = Some b \<Longrightarrow>
     \<exists>w'. destroy_one_at st h w = Some w' \<and> lst w' = filter (\<lambda>e. e \<noteq> data h) (lst w)
       \<and> \<not> mtx w'"
  by (cases b) (simp_all add: destroy_one_at_cases)

lemma one_ctor_Inr:
  assumes "one_ctor P c w = (Inr h, w1)"
  shows "one_key c \<notin> set (lst w) \<and> \<not> mtx w \<and> \<not> mtx w1
     \<and> data h = moved P (moved P (one_key c))
     \<and> lst w1 = lst w @ [moved P (one_key c)]
     \<and> (\<exists>b. base h = Some b)
     \<and> (\<exists>b v. one_alloc P c (data h) v = (Inr b, w1))"
proof -
  from assms obtain d w0 b where
    e: "entrust P (one_timeout c) (one_key c) w = (Inr d, w0)"
    and a: "one_alloc P c d w0 = (Inr b, w1)" and h: "h = \<lparr>data = d, base = Some b\<rparr>"
    by (auto simp: one_ctor_construct construct_def split: prod.splits sum.splits)
  from entrust_Inr [OF e] one_alloc_frame [OF a] a h show ?thesis
    by auto
qed

lemma one_ctor_succeeds:
  assumes "one_key c \<notin> set (lst w)" and "\<not> mtx w"
    and "one_alloc P c (moved P (moved P (one_key c))) v = (Inr b, v')"
  shows "\<exists>h' w'. one_ctor P c w = (Inr h', w')"
proof -
  obtain w0 where e: "entrust P (one_timeout c) (one_key c) w = (Inr (moved P (moved P (one_key c))), w0)"
    using assms(1,2) by (simp add: entrust_steps)
  from one_alloc_success_any_world [OF assms(3), of w0] obtain b' w'' where
    "one_alloc P c (moved P (moved P (one_key c))) w0 = (Inr b', w'')" by blast
  with e show ?thesis
    by (simp add: one_ctor_construct construct_def)
qed

lemma key_absent_after_release:
  assumes "k \<notin> set l"
  shows "k \<notin> set (filter (\<lambda>e. e \<noteq> m (m k)) (l @ [m k]))"
  using assms by auto

lemma one_ctor_not_duplicate:
  "one_key c \<notin> set (lst w) \<Longrightarrow> fst (one_ctor P c w) \<noteq> Inl DuplicateKey"
  by (auto simp: one_ctor_construct construct_def entrust_steps
      split: prod.splits sum.splits dest!: one_alloc_error)

lemma oneR_ctor_not_duplicate:
  "oneR_key c \<notin> set (lst w) \<Longrightarrow> fst (oneR_ctor P c w) \<noteq> Inl DuplicateKey"
  by (cases c)
     (auto simp: oneR_args_def oneR_marker_def entrust_steps
        split: sum.splits prod.splits option.splits if_splits dest!: oneR_default_error)

section \<open>The claim protocol\<close>

text \<open>
  C2 says that \<open>entrust\<close>, after the membership check and the timed lock, inserts the key.
  The order of the steps is the one of \<open>entrust_steps\<close>, but the value inserted is the key
  argument after \<open>verified\<close> has moved from it. For the \<open>std::string\<close> key \<open>"db"\<close> the
  registry and \<open>data\<close> receive the empty string.
\<close>

theorem entrust_inserts_moved_from_key:
  "entrust P_string 100 ''db'' string_world0 =
     (Inr [],
      \<lparr>lst = [[]], mtx = False, heap = [],
       trace = [ev_verified ''db'', ev_try_lock_for 100, ev_add [], ev_unlock]\<rparr>)"
  by (simp add: op_defs string_defs)

text \<open>
  C4. A claim attempt that fails, with DuplicateKey or with LockTimeout, leaves the list
  of claimed keys as it was: in \<open>entrust\<close> itself, in every constructor of both handle
  kinds, and in every \<open>init\<close>, which then returns false and leaves the handle unchanged.
\<close>

theorem failed_claim_leaves_registry:
  "(entrust P t k w = (Inl e, w') \<longrightarrow> (e = DuplicateKey \<or> e = LockTimeout) \<and> lst w' = lst w)
   \<and> (one_ctor P c w = (Inl e, w') \<and> (e = DuplicateKey \<or> e = LockTimeout) \<longrightarrow> lst w' = lst w)
   \<and> (oneR_ctor P cR w = (Inl e, w') \<and> (e = DuplicateKey \<or> e = LockTimeout)
        \<longrightarrow> lst w' = lst w)
   \<and> (entrust P (init_timeout ci) (init_key ci) w = (Inl e, w')
        \<longrightarrow> one_init P h ci w = (False, h, w') \<and> lst w' = lst w)
   \<and> (entrust P (oneR_timeout cR) (oneR_key cR) w = (Inl e, w')
        \<longrightarrow> oneR_init P hR cR w = (False, hR, w') \<and> lst w' = lst w)"
proof (intro conjI impI)
  assume "entrust P t k w = (Inl e, w')"
  then show "e = DuplicateKey \<or> e = LockTimeout" and "lst w' = lst w"
    by (auto dest: entrust_Inl)
next
  assume "one_ctor P c w = (Inl e, w') \<and> (e = DuplicateKey \<or> e = LockTimeout)"
  then show "lst w' = lst w"
    using one_ctor_claim_error by blast
next
  assume "oneR_ctor P cR w = (Inl e, w') \<and> (e = DuplicateKey \<or> e = LockTimeout)"
  then show "lst w' = lst w"
    using oneR_ctor_claim_error by blast
next
  assume a: "entrust P (init_timeout ci) (init_key ci) w = (Inl e, w')"
  then show "one_init P h ci w = (False, h, w')"
    by (rule one_init_claim_fails)
  from a show "lst w' = lst w"
    by (auto dest: entrust_Inl)
next
  assume a: "entrust P (oneR_timeout cR) (oneR_key cR) w = (Inl e, w')"
  then show "oneR_init P hR cR w = (False, hR, w')"
    by (rule oneR_init_claim_fails)
  from a show "lst w' = lst w"
    by (auto dest: entrust_Inl)
qed

text \<open>
  C4 at key 7 already claimed (DuplicateKey) and at key 8 with the mutex held elsewhere
  (LockTimeout).
\<close>

theorem failed_claim_leaves_registry_witness:
  "entrust P_int 100 7 world_7 = (Inl DuplicateKey, world_7\<lparr>trace := [ev_verified 7]\<rparr>)
   \<and> one_ctor P_int (call_marker 7 (Some 100)) world_7
       = (Inl DuplicateKey, world_7\<lparr>trace := [ev_verified 7]\<rparr>)
   \<and> oneR_ctor P_int (callR_marker 7 (Some 100)) world_7
       = (Inl DuplicateKey, world_7\<lparr>trace := [ev_verified 7]\<rparr>)
   \<and> one_init P_int (one_default P_int) (init_call_marker 7 (Some 100)) world_7
       = (False, one_default P_int, world_7\<lparr>trace := [ev_verified 7]\<rparr>)
   \<and> oneR_init P_int \<lparr>obj = 0, dataR = 0\<rparr> (callR_marker 7 (Some 100)) world_7
       = (False, \<lparr>obj = 0, dataR = 0\<rparr>, world_7\<lparr>trace := [ev_verified 7]\<rparr>)
   \<and> lst (world_7\<lparr>trace := [ev_verified 7]\<rparr>) = lst world_7
   \<and> entrust P_int 100 8 world_7_locked
       = (Inl LockTimeout, world_7_locked\<lparr>trace := [ev_verified 8, ev_try_lock_for 100]\<rparr>)
   \<and> one_ctor P_int (call_marker 8 (Some 100)) world_7_locked
       = (Inl LockTimeout, world_7_locked\<lparr>trace := [ev_verified 8, ev_try_lock_for 100]\<rparr>)
   \<and> lst (world_7_locked\<lparr>trace := [ev_verified 8, ev_try_lock_for 100]\<rparr>) = lst world_7_locked"
  using failed_claim_leaves_registry [where P = P_int and t = 100 and k = 7 and w = world_7
      and e = DuplicateKey and w' = "world_7\<lparr>trace := [ev_verified 7]\<rparr>"
      and c = "call_marker 7 (Some 100)" and cR = "callR_marker 7 (Some 100)"
      and ci = "init_call_marker 7 (Some 100)" and h = "one_default P_int"
      and hR = "\<lparr>obj = 0, dataR = 0\<rparr>"]
    failed_claim_leaves_registry [where P = P_int and t = 100 and k = 8 and w = world_7_locked
      and e = LockTimeout
      and w' = "world_7_locked\<lparr>trace := [ev_verified 8, ev_try_lock_for 100]\<rparr>"
      and c = "call_marker 8 (Some 100)" and cR = "callR_marker 8 (Some 100)"
      and ci = "init_call_marker 8 (Some 100)" and h = "one_default P_int"
      and hR = "\<lparr>obj = 0, dataR = 0\<rparr>"]
  by (simp add: op_defs int_defs)

section \<open>Uniqueness\<close>

text \<open>
  A key found in the list is rejected before the mutex is touched, and for a key type
  whose move leaves the source intact the operations keep the list free of duplicates.
\<close>

lemma claimed_key_rejected:
  "one_key c \<in> set (lst w) \<Longrightarrow>
     one_ctor P c w = (Inl DuplicateKey, w\<lparr>trace := trace w @ [ev_verified (one_key c)]\<rparr>)"
  by (simp add: one_ctor_construct construct_def entrust_steps)

lemma claimed_key_rejected_oneR:
  "oneR_key c \<in> set (lst w) \<Longrightarrow> oneR_default P = Inr h0 \<Longrightarrow>
     oneR_ctor P c w = (Inl DuplicateKey, w\<lparr>trace := trace w @ [ev_verified (oneR_key c)]\<rparr>)"
  by (cases c) (simp_all add: oneR_args_def oneR_marker_def entrust_steps)

lemma entrust_keeps_distinct:
  assumes "moved P k = k" and "distinct (lst w)"
  shows "distinct (lst (snd (entrust P t k w)))"
  using assms by (simp add: entrust_steps)

lemma destroy_one_keeps_distinct:
  "distinct (lst w) \<Longrightarrow> destroy_one_at st h w = Some w' \<Longrightarrow> distinct (lst w')"
  by (auto simp: destroy_one_at_cases split: if_splits option.splits Base.splits storage.splits)

lemma world_S_eq:
  "one_ctor P_string (call_marker ''db'' None) string_world0
     = (Inr \<lparr>data = [], base = Some (retain 0)\<rparr>, world_S)"
  "world_S = \<lparr>lst = [[]], mtx = False, heap = [Some 0],
              trace = [ev_verified ''db'', ev_try_lock_for 300000000, ev_add [], ev_unlock,
                       ev_new 0]\<rparr>"
  by (simp_all add: world_S_def op_defs string_defs)

lemma world_SS_eq:
  "one_ctor P_string (call_marker ''db'' None) world_S
     = (Inr \<lparr>data = [], base = Some (retain 1)\<rparr>, world_SS)"
  "lst world_SS = [[], []]"
  "heap world_SS = [Some 0, Some 0]"
  by (simp_all add: world_SS_def world_S_eq(2) op_defs string_defs)

text \<open>
  C1 says that no second live handle with the key of a live handle comes into existence.
  Two \<open>one\<close> handles constructed one after the other with the \<open>std::string\<close> key \<open>"db"\<close>
  are both live: the membership check of the second call looks for \<open>"db"\<close> in a list
  that holds the moved-from string of the first, and a second instance is allocated.
\<close>

theorem two_live_handles_one_key:
  "one_ctor P_string (call_marker ''db'' None) string_world0
       = (Inr \<lparr>data = [], base = Some (retain 0)\<rparr>, world_S)
   \<and> lst world_S = [[]]
   \<and> one_ctor P_string (call_marker ''db'' None) world_S
       = (Inr \<lparr>data = [], base = Some (retain 1)\<rparr>, world_SS)
   \<and> heap world_SS = [Some 0, Some 0]"
proof -
  have "lst world_S = [[]]"
    by (simp add: world_S_eq(2))
  then show ?thesis
    using world_S_eq(1) world_SS_eq
    by simp
qed

text \<open>
  C7 says that the list never holds two equal entries. Constructing two handles with the
  \<open>std::string\<close> keys \<open>"a"\<close> and \<open>"b"\<close> leaves the list with two empty strings.
\<close>

theorem registry_holds_equal_entries:
  "one_ctor P_string (call_marker ''a'' None) string_world0
     = (Inr \<lparr>data = [], base = Some (retain 0)\<rparr>,
        \<lparr>lst = [[]], mtx = False, heap = [Some 0],
         trace = [ev_verified ''a'', ev_try_lock_for 300000000, ev_add [], ev_unlock,
                  ev_new 0]\<rparr>)
   \<and> one_ctor P_string (call_marker ''b'' None)
        \<lparr>lst = [[]], mtx = False, heap = [Some 0],
         trace = [ev_verified ''a'', ev_try_lock_for 300000000, ev_add [], ev_unlock,
                  ev_new 0]\<rparr>
     = (Inr \<lparr>data = [], base = Some (retain 1)\<rparr>,
        \<lparr>lst = [[], []], mtx = False, heap = [Some 0, Some 0],
         trace = [ev_verified ''a'', ev_try_lock_for 300000000, ev_add [], ev_unlock,
                  ev_new 0, ev_verified ''b'', ev_try_lock_for 300000000, ev_add [],
                  ev_unlock, ev_new 1]\<rparr>)
   \<and> \<not> distinct [[] :: string, []]"
  by (simp add: op_defs string_defs)

section \<open>\<open>init\<close>\<close>

text \<open>
  When the claim fails, \<open>init\<close> returns false, and the handle, the list and the heap are
  as before.
\<close>

lemma one_init_claim_failure_clean:
  assumes "init_key c \<in> set (lst w) \<or> mtx w"
  shows "\<exists>w'. one_init P h c w = (False, h, w') \<and> lst w' = lst w \<and> heap w' = heap w"
  using assms
  by (auto simp: one_init_body init_body_def entrust_steps)

lemma world_F_eq:
  "one_init P_throwing (one_default P_throwing) (init_call_args 7 100 (- 1)) int_world0
     = (False, \<lparr>data = 7, base = None\<rparr>, world_F)"
  "world_F = \<lparr>lst = [7], mtx = False, heap = [],
              trace = [ev_verified 7, ev_try_lock_for 100, ev_add 7, ev_unlock]\<rparr>"
  by (simp_all add: world_F_def op_defs throwing_defs)

text \<open>
  C5 says that \<open>init\<close> leaves no registry entry when it returns false, so that it can be
  retried until it succeeds. When the constructor of \<open>T\<close> throws after \<open>entrust\<close> has
  returned, \<open>catch (...)\<close> returns false with the key still in the list, and a retry with
  the same key and arguments that \<open>T\<close> accepts fails with DuplicateKey; the same holds
  for \<open>oneR\<close>.
\<close>

theorem init_false_leaves_key_claimed:
  "one_init P_throwing (one_default P_throwing) (init_call_args 7 100 (- 1)) int_world0
     = (False, \<lparr>data = 7, base = None\<rparr>, world_F)
   \<and> lst world_F = [7] \<and> heap world_F = []
   \<and> one_init P_throwing \<lparr>data = 7, base = None\<rparr> (init_call_args 7 100 1) world_F
     = (False, \<lparr>data = 7, base = None\<rparr>, world_F\<lparr>trace := trace world_F @ [ev_verified 7]\<rparr>)
   \<and> T_new P_throwing (from_args 1) = Some 1
   \<and> oneR_init P_throwing \<lparr>obj = 0, dataR = 0\<rparr> (callR_args 100 7 (- 1)) int_world0
     = (False, \<lparr>obj = 0, dataR = 7\<rparr>, world_F)
   \<and> oneR_init P_throwing \<lparr>obj = 0, dataR = 7\<rparr> (callR_args 100 7 1) world_F
     = (False, \<lparr>obj = 0, dataR = 7\<rparr>, world_F\<lparr>trace := trace world_F @ [ev_verified 7]\<rparr>)"
  using world_F_eq(1)
  by (simp add: world_F_eq(2) op_defs throwing_defs)

section \<open>Destruction\<close>

text \<open>
  C6 (as amended). With the mutex free, \<open>~one\<close> locks it, erases the handle's key,
  destroys the instance if the handle owns it (leaving the instance of a borrowing handle
  untouched), and unlocks the mutex last. With the mutex held elsewhere it does not return.
\<close>

theorem destroy_one_order:
  "(\<not> mtx w \<longrightarrow>
      destroy_one \<lparr>data = k, base = Some (retain a)\<rparr> w =
        Some (w\<lparr>lst := filter (\<lambda>e. e \<noteq> k) (lst w), heap := (heap w)[a := None],
               trace := trace w @ [ev_lock, ev_erase k, ev_delete a, ev_unlock]\<rparr>)
      \<and> destroy_one \<lparr>data = k, base = Some (package a)\<rparr> w =
        Some (w\<lparr>lst := filter (\<lambda>e. e \<noteq> k) (lst w),
               trace := trace w @ [ev_lock, ev_erase k, ev_unlock]\<rparr>))
   \<and> (mtx w \<longrightarrow> destroy_one h w = None)"
  by (simp add: destroy_one_def destroy_one_at_cases)

text \<open>C6 (as amended) for an owning and a borrowing handle with key 7.\<close>

theorem destroy_one_order_witness:
  "\<not> mtx world_7 \<and> mtx world_7_locked
   \<and> destroy_one \<lparr>data = 7, base = Some (retain 0)\<rparr> world_7 =
       Some \<lparr>lst = [], mtx = False, heap = [None],
             trace = [ev_lock, ev_erase 7, ev_delete 0, ev_unlock]\<rparr>
   \<and> destroy_one \<lparr>data = 7, base = Some (package 0)\<rparr> world_7 =
       Some \<lparr>lst = [], mtx = False, heap = [Some 0],
             trace = [ev_lock, ev_erase 7, ev_unlock]\<rparr>
   \<and> destroy_one \<lparr>data = 7, base = Some (retain 0)\<rparr> world_7_locked = None"
  using destroy_one_order [of world_7 7 0 "\<lparr>data = 7, base = Some (retain 0)\<rparr>"]
    destroy_one_order [of world_7_locked 7 0 "\<lparr>data = 7, base = Some (retain 0)\<rparr>"]
  by (simp add: int_defs)

text \<open>
  C6 (as stated) fails: the instance of an owning handle is destroyed before the mutex is
  unlocked, not after.
\<close>

theorem destroy_one_order_counterexample:
  "destroy_one \<lparr>data = 7, base = Some (retain 0)\<rparr> world_7 =
     Some \<lparr>lst = [], mtx = False, heap = [None],
           trace = [ev_lock, ev_erase 7, ev_delete 0, ev_unlock]\<rparr>
   \<and> destroy_one_spec \<lparr>data = 7, base = Some (retain 0)\<rparr> world_7 =
     Some \<lparr>lst = [], mtx = False, heap = [None],
           trace = [ev_lock, ev_erase 7, ev_unlock, ev_delete 0]\<rparr>
   \<and> destroy_one \<lparr>data = 7, base = Some (retain 0)\<rparr> world_7
       \<noteq> destroy_one_spec \<lparr>data = 7, base = Some (retain 0)\<rparr> world_7"
  by (simp add: destroy_one_def destroy_one_at_cases destroy_one_spec_def delete_base_def
      log_def erase_def Let_def world_7_def)

text \<open>
  C8. After a handle has been constructed and destroyed, in whatever storage it lived,
  the same constructor call succeeds again, and no constructor call with that key fails
  with DuplicateKey. The handle is a \<open>one\<close>: no \<open>oneR\<close> handle can be destroyed.
\<close>

theorem key_reusable_after_destruction:
  "one_ctor P c w = (Inr h, wa) \<longrightarrow>
      (\<exists>w2. destroy_one_at st h wa = Some w2
         \<and> (\<exists>h' w3. one_ctor P c w2 = (Inr h', w3))
         \<and> (\<forall>c'. one_key c' = one_key c \<longrightarrow> fst (one_ctor P c' w2) \<noteq> Inl DuplicateKey))"
proof
  assume a: "one_ctor P c w = (Inr h, wa)"
  note f = one_ctor_Inr [OF a]
  from f obtain b v where al: "one_alloc P c (data h) v = (Inr b, wa)" by blast
  from f obtain b' where bh: "base h = Some b'" by blast
  from f have "\<not> mtx wa" by simp
  from destroy_one_at_Some [OF this bh, of st] obtain w2 where
    d: "destroy_one_at st h wa = Some w2" and l: "lst w2 = filter (\<lambda>e. e \<noteq> data h) (lst wa)"
    and m: "\<not> mtx w2" by blast
  have k: "one_key c \<notin> set (lst w2)"
    using f l key_absent_after_release [of "one_key c" "lst w" "moved P"] by simp
  have "\<exists>h' w3. one_ctor P c w2 = (Inr h', w3)"
    using one_ctor_succeeds [OF k m] al f by metis
  moreover have "\<forall>c'. one_key c' = one_key c \<longrightarrow> fst (one_ctor P c' w2) \<noteq> Inl DuplicateKey"
    using k one_ctor_not_duplicate by metis
  ultimately show "\<exists>w2. destroy_one_at st h wa = Some w2
         \<and> (\<exists>h' w3. one_ctor P c w2 = (Inr h', w3))
         \<and> (\<forall>c'. one_key c' = one_key c \<longrightarrow> fst (one_ctor P c' w2) \<noteq> Inl DuplicateKey)"
    using d by blast
qed

text \<open>C8 at key 7, for a local handle.\<close>

theorem key_reusable_after_destruction_witness:
  "one_ctor P_int (call_marker 7 None) int_world0
     = (Inr \<lparr>data = 7, base = Some (retain 0)\<rparr>,
        \<lparr>lst = [7], mtx = False, heap = [Some 0],
         trace = [ev_verified 7, ev_try_lock_for 300000000, ev_add 7, ev_unlock, ev_new 0]\<rparr>)
   \<and> (\<exists>w2. destroy_one_at not_initialised \<lparr>data = 7, base = Some (retain 0)\<rparr>
          \<lparr>lst = [7], mtx = False, heap = [Some 0],
           trace = [ev_verified 7, ev_try_lock_for 300000000, ev_add 7, ev_unlock, ev_new 0]\<rparr>
          = Some w2
        \<and> (\<exists>h' w3. one_ctor P_int (call_marker 7 None) w2 = (Inr h', w3))
        \<and> fst (one_ctor P_int (call_condition 7 None) w2) \<noteq> Inl DuplicateKey)"
proof -
  have a: "one_ctor P_int (call_marker 7 None) int_world0
     = (Inr \<lparr>data = 7, base = Some (retain 0)\<rparr>,
        \<lparr>lst = [7], mtx = False, heap = [Some 0],
         trace = [ev_verified 7, ev_try_lock_for 300000000, ev_add 7, ev_unlock, ev_new 0]\<rparr>)"
    by (simp add: op_defs int_defs)
  have k: "one_key (call_condition 7 None :: (int, int) one_call)
      = one_key (call_marker 7 None :: (int, int) one_call)"
    by simp
  show ?thesis
    using a k key_reusable_after_destruction [where P = P_int and c = "call_marker 7 None"
        and w = int_world0 and h = "\<lparr>data = 7, base = Some (retain 0)\<rparr>"
        and st = not_initialised
        and wa = "\<lparr>lst = [7], mtx = False, heap = [Some 0],
         trace = [ev_verified 7, ev_try_lock_for 300000000, ev_add 7, ev_unlock, ev_new 0]\<rparr>"]
    by blast
qed




section \<open>Default timeouts\<close>

text \<open>
  C9. In every constructor and \<open>init\<close> of \<open>one\<close> that can be called without a timeout,
  omitting it is the same as passing 300000000 ms (5000 minutes), and for an unclaimed
  key the duration given to \<open>try_lock_for\<close> is the timeout passed, or 300000000 ms when
  it is omitted; in the constructor and the \<open>init\<close> of \<open>oneR\<close> that have a default it is
  5000 ms. The two defaults differ.
\<close>

theorem default_timeouts:
  "minutes 5000 = 300000000 \<and> minutes 5000 \<noteq> 5000
   \<and> one_ctor P (call_condition k None) w = one_ctor P (call_condition k (Some 300000000)) w
   \<and> one_ctor P (call_marker k None) w = one_ctor P (call_marker k (Some 300000000)) w
   \<and> one_ctor P (call_ref d k None) w = one_ctor P (call_ref d k (Some 300000000)) w
   \<and> one_init P h (init_call_ref d k None) w
       = one_init P h (init_call_ref d k (Some 300000000)) w
   \<and> one_init P h (init_call_marker k None) w
       = one_init P h (init_call_marker k (Some 300000000)) w
   \<and> oneR_ctor P (callR_marker k None) w = oneR_ctor P (callR_marker k (Some 5000)) w
   \<and> oneR_init P hR (callR_marker k None) w = oneR_init P hR (callR_marker k (Some 5000)) w
   \<and> (k \<notin> set (lst w) \<longrightarrow>
        tried (trace (snd (one_ctor P (call_condition k t) w)))
          = tried (trace w) @ [case t of None \<Rightarrow> 300000000 | Some u \<Rightarrow> u]
        \<and> tried (trace (snd (one_ctor P (call_marker k t) w)))
          = tried (trace w) @ [case t of None \<Rightarrow> 300000000 | Some u \<Rightarrow> u]
        \<and> tried (trace (snd (one_ctor P (call_ref d k t) w)))
          = tried (trace w) @ [case t of None \<Rightarrow> 300000000 | Some u \<Rightarrow> u]
        \<and> tried (trace (snd (snd (one_init P h (init_call_ref d k t) w))))
          = tried (trace w) @ [case t of None \<Rightarrow> 300000000 | Some u \<Rightarrow> u]
        \<and> tried (trace (snd (snd (one_init P h (init_call_marker k t) w))))
          = tried (trace w) @ [case t of None \<Rightarrow> 300000000 | Some u \<Rightarrow> u]
        \<and> (oneR_default P = Inr hR \<longrightarrow>
             tried (trace (snd (oneR_ctor P (callR_marker k t) w)))
               = tried (trace w) @ [case t of None \<Rightarrow> 5000 | Some u \<Rightarrow> u])
        \<and> tried (trace (snd (snd (oneR_init P hR (callR_marker k t) w))))
          = tried (trace w) @ [case t of None \<Rightarrow> 5000 | Some u \<Rightarrow> u])"
proof -
  have m: "minutes 5000 = 300000000"
    by (simp add: minutes_def)
  have eqs: "one_ctor P (call_condition k None) w
       = one_ctor P (call_condition k (Some 300000000)) w"
    "one_ctor P (call_marker k None) w = one_ctor P (call_marker k (Some 300000000)) w"
    "one_ctor P (call_ref d k None) w = one_ctor P (call_ref d k (Some 300000000)) w"
    "one_init P h (init_call_ref d k None) w
       = one_init P h (init_call_ref d k (Some 300000000)) w"
    "one_init P h (init_call_marker k None) w
       = one_init P h (init_call_marker k (Some 300000000)) w"
    "oneR_ctor P (callR_marker k None) w = oneR_ctor P (callR_marker k (Some 5000)) w"
    "oneR_init P hR (callR_marker k None) w = oneR_init P hR (callR_marker k (Some 5000)) w"
    by (simp_all add: one_condition_def one_marker_def one_ref_def
        init_ref_def init_marker_def oneR_marker_def
        oneR_init_marker_def timeout_or_def m split: sum.splits prod.splits)
  have tr: "tried (trace (snd (one_ctor P (call_condition k t) w)))
          = tried (trace w) @ [case t of None \<Rightarrow> 300000000 | Some u \<Rightarrow> u]
        \<and> tried (trace (snd (one_ctor P (call_marker k t) w)))
          = tried (trace w) @ [case t of None \<Rightarrow> 300000000 | Some u \<Rightarrow> u]
        \<and> tried (trace (snd (one_ctor P (call_ref d k t) w)))
          = tried (trace w) @ [case t of None \<Rightarrow> 300000000 | Some u \<Rightarrow> u]
        \<and> tried (trace (snd (snd (one_init P h (init_call_ref d k t) w))))
          = tried (trace w) @ [case t of None \<Rightarrow> 300000000 | Some u \<Rightarrow> u]
        \<and> tried (trace (snd (snd (one_init P h (init_call_marker k t) w))))
          = tried (trace w) @ [case t of None \<Rightarrow> 300000000 | Some u \<Rightarrow> u]
        \<and> (oneR_default P = Inr hR \<longrightarrow>
             tried (trace (snd (oneR_ctor P (callR_marker k t) w)))
               = tried (trace w) @ [case t of None \<Rightarrow> 5000 | Some u \<Rightarrow> u])
        \<and> tried (trace (snd (snd (oneR_init P hR (callR_marker k t) w))))
          = tried (trace w) @ [case t of None \<Rightarrow> 5000 | Some u \<Rightarrow> u]" if "k \<notin> set (lst w)"
    using that
    by (simp add: one_condition_def one_marker_def one_ref_def init_ref_def init_marker_def
        oneR_marker_def oneR_init_marker_def construct_def
        init_body_def entrust_steps new_retain_cases new_package_def timeout_or_def m
        tried_append split: option.splits)
  from m eqs tr show ?thesis
    by simp
qed

text \<open>C9 at key 7 in the empty state.\<close>

theorem default_timeouts_witness:
  "(7 :: int) \<notin> set (lst int_world0)
   \<and> oneR_default P_int = Inr \<lparr>obj = 0, dataR = 0\<rparr>
   \<and> tried (trace (snd (one_ctor P_int (call_condition 7 None) int_world0))) = [300000000]
   \<and> tried (trace (snd (one_ctor P_int (call_marker 7 None) int_world0))) = [300000000]
   \<and> tried (trace (snd (one_ctor P_int (call_ref 0 7 None) int_world0))) = [300000000]
   \<and> tried (trace (snd (snd (one_init P_int (one_default P_int) (init_call_ref 0 7 None)
        int_world0)))) = [300000000]
   \<and> tried (trace (snd (snd (one_init P_int (one_default P_int) (init_call_marker 7 None)
        int_world0)))) = [300000000]
   \<and> tried (trace (snd (oneR_ctor P_int (callR_marker 7 None) int_world0))) = [5000]
   \<and> tried (trace (snd (snd (oneR_init P_int \<lparr>obj = 0, dataR = 0\<rparr> (callR_marker 7 None)
        int_world0)))) = [5000]"
proof -
  have k: "(7 :: int) \<notin> set (lst int_world0)" and t: "tried (trace int_world0) = []"
    and r: "oneR_default P_int = Inr \<lparr>obj = 0, dataR = 0\<rparr>"
    by (simp_all add: oneR_default_def int_defs)
  from k r default_timeouts [where P = P_int and k = 7 and w = int_world0 and d = 0
      and h = "one_default P_int" and hR = "\<lparr>obj = 0, dataR = 0\<rparr>" and t = None]
  show ?thesis
    unfolding t append_Nil option.case by blast
qed

end
